theory Spec2Isabelle
  imports Complex_Main "HOL-Library.AList"
begin

section \<open>Values of the host language\<close>

text \<open>
  The platform is written in TypeScript. Records, request payloads and field values are
  untyped JSON data at run time, so the embedding starts with the values the code can see:
  the JSON values, \<open>undefined\<close> (what reading a property gives that is nowhere on the
  object), and what reading a property gives that the object inherits from
  \<open>Object.prototype\<close>: one of its builtin functions, or \<open>Object.prototype\<close> itself for the
  key \<open>__proto__\<close>.

  A JSON object is a finite map from its own keys to values; the order of the keys is not
  represented. \<open>JSON.parse\<close> and object spread create own properties for every key,
  \<open>__proto__\<close> included, so the prototype of every object here is \<open>Object.prototype\<close>.

  A number is an IEEE double. The code only compares numbers and tests them for NaN, so a
  finite double is represented by the rational it denotes; the two infinities and NaN are
  kept apart. (JSON text such as \<open>1e999\<close> parses to \<open>Infinity\<close>.)

  A string is a \<^typ>\<open>string\<close>; its length is the number of its characters.
\<close>

datatype jsnum = NaN | NegInfinity | Finite rat | PosInfinity

datatype jsval =
    JUndefined
  | JNull
  | JBool bool
  | JNum jsnum
  | JStr string
  | JArr "jsval list"
  | JObj "string \<Rightarrow> jsval option"
  | JFunction string
  | JObjectPrototype

text \<open>Truthiness, as used by \<open>!x\<close>, \<open>x || y\<close>, \<open>x && y\<close> and \<open>if (x)\<close>.\<close>

fun truthy :: "jsval \<Rightarrow> bool" where
  "truthy JUndefined = False"
| "truthy JNull = False"
| "truthy (JBool b) = b"
| "truthy (JNum n) = (n \<noteq> NaN \<and> n \<noteq> Finite 0)"
| "truthy (JStr s) = (s \<noteq> [])"
| "truthy (JArr xs) = True"
| "truthy (JObj obj) = True"
| "truthy (JFunction name) = True"
| "truthy JObjectPrototype = True"

text \<open>The relational operator \<open>a < b\<close> on numbers: false as soon as one side is NaN.\<close>

fun js_less :: "jsnum \<Rightarrow> jsnum \<Rightarrow> bool" where
  "js_less NaN b = False"
| "js_less a NaN = False"
| "js_less a NegInfinity = False"
| "js_less NegInfinity b = True"
| "js_less PosInfinity b = False"
| "js_less (Finite x) PosInfinity = True"
| "js_less (Finite x) (Finite y) = (x < y)"

definition isNaN :: "jsnum \<Rightarrow> bool" where
  "isNaN n = (n = NaN)"

section \<open>Roles and permission rules (lib/rbac.ts)\<close>

datatype UserRole = Admin | Manager | Viewer

datatype Action = Create | Read | Update | Delete

text \<open>\<open>interface RBACRule\<close>: every action has an optional list of roles.\<close>

record RBACRule =
  create :: "UserRole list option"
  read :: "UserRole list option"
  update :: "UserRole list option"
  delete :: "UserRole list option"

text \<open>\<open>permissions[action]\<close>\<close>

fun ruleEntry :: "RBACRule \<Rightarrow> Action \<Rightarrow> UserRole list option" where
  "ruleEntry p Create = create p"
| "ruleEntry p Read = read p"
| "ruleEntry p Update = update p"
| "ruleEntry p Delete = delete p"

text \<open>
  \<open>canPerformAction(userRole, action, permissions?)\<close>. The guard
  \<open>!permissions || !permissions[action]\<close> holds when the rule or the entry is missing; an
  array, also the empty one, is truthy, so an entry that is present always reaches
  \<open>allowedRoles.includes(userRole)\<close>.
\<close>

definition canPerformAction :: "UserRole \<Rightarrow> Action \<Rightarrow> RBACRule option \<Rightarrow> bool" where
  "canPerformAction userRole action permissions =
     (case permissions of
        None \<Rightarrow> userRole = Admin
      | Some p \<Rightarrow>
          (case ruleEntry p action of
             None \<Rightarrow> userRole = Admin
           | Some allowedRoles \<Rightarrow> userRole \<in> set allowedRoles))"

text \<open>
  \<open>checkOwnership(userId, ownerId, userRole)\<close>. The parameter \<open>ownerId\<close> is declared
  \<open>string | undefined\<close>; the route handlers pass \<open>record[model.ownerField]\<close>, a value of type
  \<open>any\<close>, so it is a \<^typ>\<open>jsval\<close> here. \<open>userId === ownerId\<close> holds exactly when
  \<open>ownerId\<close> is the string \<open>userId\<close>.
\<close>

definition checkOwnership :: "string \<Rightarrow> jsval \<Rightarrow> UserRole \<Rightarrow> bool" where
  "checkOwnership userId ownerId userRole =
     (if userRole = Admin then True
      else if \<not> truthy ownerId then True
      else ownerId = JStr userId)"

section \<open>Objects and their properties\<close>

text \<open>
  A record, a request payload and the \<open>errors\<close> object of the validator are plain objects
  indexed by arbitrary keys. Reading \<open>obj[k]\<close> gives the own property \<open>k\<close> when there is
  one, and otherwise what \<open>Object.prototype\<close> has under \<open>k\<close>: a builtin function for its
  eleven method names (under \<open>constructor\<close>, the function \<open>Object\<close>), \<open>Object.prototype\<close>
  itself for \<open>__proto__\<close>, and \<open>undefined\<close> for every other key.
\<close>

type_synonym DataRecord = "string \<rightharpoonup> jsval"

definition objectPrototypeMethods :: "string list" where
  "objectPrototypeMethods =
     [''hasOwnProperty'', ''isPrototypeOf'', ''propertyIsEnumerable'', ''toLocaleString'',
      ''toString'', ''valueOf'', ''__defineGetter__'', ''__defineSetter__'',
      ''__lookupGetter__'', ''__lookupSetter__'']"

definition inherited :: "string \<Rightarrow> jsval" where
  "inherited k =
     (if k = ''__proto__'' then JObjectPrototype
      else if k = ''constructor'' then JFunction ''Object''
      else if k \<in> set objectPrototypeMethods then JFunction k
      else JUndefined)"

definition getProp :: "DataRecord \<Rightarrow> string \<Rightarrow> jsval" where
  "getProp r k = (case r k of None \<Rightarrow> inherited k | Some v \<Rightarrow> v)"

text \<open>
  The assignment \<open>obj[k] = v\<close> of a string \<open>v\<close> to a plain object creates or replaces the
  own property \<open>k\<close>, except for \<open>k = __proto__\<close>: that key is an accessor on
  \<open>Object.prototype\<close> whose setter ignores a value that is neither an object nor \<open>null\<close>,
  so nothing is stored.
\<close>

definition setStringProp :: "(string \<rightharpoonup> string) \<Rightarrow> string \<Rightarrow> string \<Rightarrow> (string \<rightharpoonup> string)" where
  "setStringProp obj k v = (if k = ''__proto__'' then obj else obj(k \<mapsto> v))"

section \<open>Builtins of the host language\<close>

text \<open>
  \<open>validateField\<close> calls \<open>Number\<close>, \<open>String\<close>, \<open>new RegExp\<close>, \<open>new URL\<close> and \<open>new Date\<close>.
  What they do on the values above is fixed below; their string-level parts (parsing a
  numeric literal, printing a number or a builtin function, compiling a regular
  expression, parsing a URL or a date) are library code outside the repository and are
  taken as parameters, so that every theorem about the validator holds whatever those
  parts compute.

  \<open>RegExp_new p\<close> is \<open>None\<close> when the constructor throws a SyntaxError on the pattern
  \<open>p\<close>, and otherwise the \<open>test\<close> method of the compiled expression.
\<close>

record js_builtins =
  StringToNumber :: "string \<Rightarrow> jsnum"
  NumberToString :: "jsnum \<Rightarrow> string"
  FunctionToString :: "string \<Rightarrow> string"
  RegExp_new :: "string \<Rightarrow> (string \<Rightarrow> bool) option"
  URL_parses :: "string \<Rightarrow> bool"
  Date_valid :: "string \<Rightarrow> bool"

datatype js_error = SyntaxError | TypeError

fun join :: "string \<Rightarrow> string list \<Rightarrow> string" where
  "join sep [] = []"
| "join sep [x] = x"
| "join sep (x # y # ys) = x @ sep @ join sep (y # ys)"

text \<open>The results of a sequence of computations, or the first exception among them.\<close>

fun collect :: "(js_error + 'a) list \<Rightarrow> js_error + 'a list" where
  "collect [] = Inr []"
| "collect (r # rs) =
     (case r of
        Inl e \<Rightarrow> Inl e
      | Inr x \<Rightarrow> (case collect rs of Inl e \<Rightarrow> Inl e | Inr xs \<Rightarrow> Inr (x # xs)))"

text \<open>
  \<open>String(value)\<close>. An array prints its elements separated by commas, with \<open>null\<close> and
  \<open>undefined\<close> elements printed as nothing. A plain object is converted by its
  \<open>toString\<close> method and then its \<open>valueOf\<close> method: without an own \<open>toString\<close> key the
  inherited method answers \<open>[object Object]\<close>; with one (a JSON value, which is not
  callable) neither method gives a primitive value and a TypeError is thrown. That
  exception also leaves the conversion of an array that contains such an object.
\<close>

fun ToString :: "js_builtins \<Rightarrow> jsval \<Rightarrow> js_error + string" where
  "ToString B JUndefined = Inr ''undefined''"
| "ToString B JNull = Inr ''null''"
| "ToString B (JBool b) = Inr (if b then ''true'' else ''false'')"
| "ToString B (JNum n) = Inr (NumberToString B n)"
| "ToString B (JStr s) = Inr s"
| "ToString B (JArr xs) =
     (case collect
             (map (\<lambda>x. if x = JUndefined \<or> x = JNull then Inr [] else ToString B x) xs) of
        Inl e \<Rightarrow> Inl e
      | Inr strs \<Rightarrow> Inr (join '','' strs))"
| "ToString B (JObj obj) =
     (if obj ''toString'' \<noteq> None then Inl TypeError else Inr ''[object Object]'')"
| "ToString B (JFunction name) = Inr (FunctionToString B name)"
| "ToString B JObjectPrototype = Inr ''[object Object]''"

text \<open>
  \<open>Number(value)\<close>. An object (array, plain object, function) is first converted to a
  primitive value: its \<open>valueOf\<close> method, own or inherited, gives no primitive value, so the
  conversion is that of \<open>String\<close>, exception included, followed by the parsing of the
  string.
\<close>

fun ToNumber :: "js_builtins \<Rightarrow> jsval \<Rightarrow> js_error + jsnum" where
  "ToNumber B JUndefined = Inr NaN"
| "ToNumber B JNull = Inr (Finite 0)"
| "ToNumber B (JBool b) = Inr (Finite (if b then 1 else 0))"
| "ToNumber B (JNum n) = Inr n"
| "ToNumber B (JStr s) = Inr (StringToNumber B s)"
| "ToNumber B v =
     (case ToString B v of Inl e \<Rightarrow> Inl e | Inr s \<Rightarrow> Inr (StringToNumber B s))"

subsection \<open>The regular expression literal of the email check\<close>

text \<open>
  \<open>/^[^\s@]+@[^\s@]+\.[^\s@]+$/\<close> is part of the source, so it is interpreted here: a
  small matcher by derivatives over regular expressions whose atoms are character classes.
  With \<open>^\<close> and \<open>$\<close> and no flags, \<open>test\<close> is a match of the whole string.
\<close>

datatype rexp =
    Zero
  | One
  | Atom "char \<Rightarrow> bool"
  | Alt rexp rexp
  | Times rexp rexp
  | Star rexp

fun nullable :: "rexp \<Rightarrow> bool" where
  "nullable Zero = False"
| "nullable One = True"
| "nullable (Atom P) = False"
| "nullable (Alt r s) = (nullable r \<or> nullable s)"
| "nullable (Times r s) = (nullable r \<and> nullable s)"
| "nullable (Star r) = True"

fun deriv :: "char \<Rightarrow> rexp \<Rightarrow> rexp" where
  "deriv c Zero = Zero"
| "deriv c One = Zero"
| "deriv c (Atom P) = (if P c then One else Zero)"
| "deriv c (Alt r s) = Alt (deriv c r) (deriv c s)"
| "deriv c (Times r s) =
     (if nullable r then Alt (Times (deriv c r) s) (deriv c s) else Times (deriv c r) s)"
| "deriv c (Star r) = Times (deriv c r) (Star r)"

fun matches :: "rexp \<Rightarrow> string \<Rightarrow> bool" where
  "matches r [] = nullable r"
| "matches r (c # cs) = matches (deriv c r) cs"

definition Plus :: "rexp \<Rightarrow> rexp" where
  "Plus r = Times r (Star r)"

text \<open>\<open>\s\<close> on the characters of \<^typ>\<open>char\<close>: tab, line feed, vertical tab, form feed,
  carriage return, space and no-break space.\<close>

definition whitespace :: "char \<Rightarrow> bool" where
  "whitespace c = (of_char c \<in> {9, 10, 11, 12, 13, 32, 160 :: nat})"

definition notSpaceAt :: "char \<Rightarrow> bool" where
  "notSpaceAt c = (\<not> whitespace c \<and> c \<noteq> CHR ''@'')"

definition emailRegex :: rexp where
  "emailRegex =
     Times (Plus (Atom notSpaceAt))
       (Times (Atom (\<lambda>c. c = CHR ''@''))
          (Times (Plus (Atom notSpaceAt))
             (Times (Atom (\<lambda>c. c = CHR ''.'')) (Plus (Atom notSpaceAt)))))"

section \<open>Model definitions and validation (lib/models.ts)\<close>

datatype FieldType = FString | FNumber | FBoolean | FDate | FEmail | FUrl

record FieldValidation =
  v_required :: "bool option"
  v_min :: "jsnum option"
  v_max :: "jsnum option"
  v_pattern :: "string option"
  v_minLength :: "jsnum option"
  v_maxLength :: "jsnum option"

record ModelField =
  field_name :: string
  field_type :: FieldType
  field_validation :: "FieldValidation option"
  field_label :: "string option"
  field_required :: "bool option"

record ModelDefinition =
  model_name :: string
  model_fields :: "ModelField list"
  model_ownerField :: "string option"
  model_permissions :: RBACRule
  model_createdAt :: string
  model_updatedAt :: string

text \<open>The object \<open>{}\<close> that stands in for a missing \<open>field.validation\<close>.\<close>

definition noValidation :: FieldValidation where
  "noValidation =
     \<lparr>v_required = None, v_min = None, v_max = None, v_pattern = None,
      v_minLength = None, v_maxLength = None\<rparr>"

text \<open>\<open>field.validation || {}\<close>\<close>

definition validationOf :: "ModelField \<Rightarrow> FieldValidation" where
  "validationOf field = (case field_validation field of None \<Rightarrow> noValidation | Some v \<Rightarrow> v)"

text \<open>\<open>validation.required || field.required\<close>, as the condition of an \<open>if\<close>.\<close>

definition isRequired :: "ModelField \<Rightarrow> bool" where
  "isRequired field =
     (v_required (validationOf field) = Some True \<or> field_required field = Some True)"

text \<open>\<open>value === null || value === undefined || value === ''\<close>\<close>

definition isEmpty :: "jsval \<Rightarrow> bool" where
  "isEmpty v = (v = JNull \<or> v = JUndefined \<or> v = JStr [])"

text \<open>\<open>field.label || field.name\<close>: an empty label is falsy.\<close>

definition labelOrName :: "ModelField \<Rightarrow> string" where
  "labelOrName field =
     (case field_label field of
        None \<Rightarrow> field_name field
      | Some l \<Rightarrow> if l = [] then field_name field else l)"

text \<open>
  The body of \<open>validateField\<close> after the emptiness checks is a sequence of \<open>if\<close> blocks,
  one per group of types. Each block below gives what the block does: \<open>Inr (Some msg)\<close>
  when it returns the message, \<open>Inl e\<close> when an exception leaves it, and \<open>Inr None\<close>
  when control falls through to the next block.
\<close>

text \<open>\<open>bound !== undefined && x < bound\<close> and \<open>bound !== undefined && x > bound\<close>: the
  bound that is violated, if one is.\<close>

definition belowBound :: "jsnum \<Rightarrow> jsnum option \<Rightarrow> jsnum option" where
  "belowBound x bound =
     (case bound of None \<Rightarrow> None | Some m \<Rightarrow> if js_less x m then Some m else None)"

definition aboveBound :: "jsnum \<Rightarrow> jsnum option \<Rightarrow> jsnum option" where
  "aboveBound x bound =
     (case bound of None \<Rightarrow> None | Some m \<Rightarrow> if js_less m x then Some m else None)"

definition numberBlock ::
  "js_builtins \<Rightarrow> jsval \<Rightarrow> ModelField \<Rightarrow> js_error + string option" where
  "numberBlock B v field =
     (if field_type field = FNumber then
        (case ToNumber B v of
           Inl e \<Rightarrow> Inl e
         | Inr num \<Rightarrow>
             (let validation = validationOf field in
              if isNaN num then Inr (Some (labelOrName field @ '' must be a number''))
              else
                (case belowBound num (v_min validation) of
                   Some m \<Rightarrow>
                     Inr (Some (labelOrName field @ '' must be at least '' @ NumberToString B m))
                 | None \<Rightarrow>
                     (case aboveBound num (v_max validation) of
                        Some m \<Rightarrow>
                          Inr (Some (labelOrName field @ '' must be at most ''
                                       @ NumberToString B m))
                      | None \<Rightarrow> Inr None))))
      else Inr None)"

text \<open>In the string block \<open>String(value)\<close> runs first, whatever constraints are declared;
  \<open>new RegExp\<close> can throw as well.\<close>

definition stringBlock ::
  "js_builtins \<Rightarrow> jsval \<Rightarrow> ModelField \<Rightarrow> js_error + string option" where
  "stringBlock B v field =
     (if field_type field = FString \<or> field_type field = FEmail \<or> field_type field = FUrl then
        (case ToString B v of
           Inl e \<Rightarrow> Inl e
         | Inr str \<Rightarrow>
             (let validation = validationOf field;
                  len = Finite (of_nat (length str)) in
              case belowBound len (v_minLength validation) of
                Some m \<Rightarrow>
                  Inr (Some (labelOrName field @ '' must be at least '' @ NumberToString B m
                               @ '' characters''))
              | None \<Rightarrow>
                  (case aboveBound len (v_maxLength validation) of
                     Some m \<Rightarrow>
                       Inr (Some (labelOrName field @ '' must be at most '' @ NumberToString B m
                                    @ '' characters''))
                   | None \<Rightarrow>
                       (case v_pattern validation of
                          None \<Rightarrow> Inr None
                        | Some p \<Rightarrow>
                            if p = [] then Inr None
                            else
                              (case RegExp_new B p of
                                 None \<Rightarrow> Inl SyntaxError
                               | Some test \<Rightarrow>
                                   if \<not> test str
                                   then Inr (Some (labelOrName field @ '' format is invalid''))
                                   else Inr None)))))
      else Inr None)"

definition emailBlock ::
  "js_builtins \<Rightarrow> jsval \<Rightarrow> ModelField \<Rightarrow> js_error + string option" where
  "emailBlock B v field =
     (if field_type field = FEmail then
        (case ToString B v of
           Inl e \<Rightarrow> Inl e
         | Inr str \<Rightarrow>
             if \<not> matches emailRegex str
             then Inr (Some (labelOrName field @ '' must be a valid email'')) else Inr None)
      else Inr None)"

text \<open>\<open>new URL(String(value))\<close> is inside \<open>try\<close>: an exception of either call is answered
  with the message.\<close>

definition urlBlock ::
  "js_builtins \<Rightarrow> jsval \<Rightarrow> ModelField \<Rightarrow> js_error + string option" where
  "urlBlock B v field =
     (if field_type field = FUrl then
        (case ToString B v of
           Inl e \<Rightarrow> Inr (Some (labelOrName field @ '' must be a valid URL''))
         | Inr str \<Rightarrow>
             if \<not> URL_parses B str
             then Inr (Some (labelOrName field @ '' must be a valid URL'')) else Inr None)
      else Inr None)"

definition dateBlock ::
  "js_builtins \<Rightarrow> jsval \<Rightarrow> ModelField \<Rightarrow> js_error + string option" where
  "dateBlock B v field =
     (if field_type field = FDate then
        (case ToString B v of
           Inl e \<Rightarrow> Inl e
         | Inr str \<Rightarrow>
             if \<not> Date_valid B str
             then Inr (Some (labelOrName field @ '' must be a valid date'')) else Inr None)
      else Inr None)"

text \<open>\<open>typeof value !== 'boolean' && value !== 'true' && value !== 'false'\<close>\<close>

definition booleanBlock :: "jsval \<Rightarrow> ModelField \<Rightarrow> js_error + string option" where
  "booleanBlock v field =
     (if field_type field = FBoolean
         \<and> (case v of JBool b \<Rightarrow> False | _ \<Rightarrow> True) \<and> v \<noteq> JStr ''true'' \<and> v \<noteq> JStr ''false''
      then Inr (Some (labelOrName field @ '' must be a boolean value'')) else Inr None)"

text \<open>A block that returns or throws ends the function; otherwise the next block runs.\<close>

definition fallThrough ::
  "js_error + string option \<Rightarrow> js_error + string option \<Rightarrow> js_error + string option" where
  "fallThrough block rest = (case block of Inr None \<Rightarrow> rest | Inr (Some msg) \<Rightarrow> block | Inl e \<Rightarrow> block)"

text \<open>
  \<open>validateField(value, field)\<close>: \<open>Inr (Some msg)\<close> is the returned message,
  \<open>Inr None\<close> the returned \<open>null\<close>, \<open>Inl e\<close> an exception that leaves the function.
\<close>

definition validateField :: "js_builtins \<Rightarrow> jsval \<Rightarrow> ModelField \<Rightarrow> js_error + string option" where
  "validateField B v field =
     (if isRequired field \<and> isEmpty v then Inr (Some (labelOrName field @ '' is required''))
      else if isEmpty v then Inr None
      else
        fallThrough (numberBlock B v field)
       (fallThrough (stringBlock B v field)
       (fallThrough (emailBlock B v field)
       (fallThrough (urlBlock B v field)
       (fallThrough (dateBlock B v field)
       (booleanBlock v field))))))"

text \<open>
  \<open>validateModelData(data, model)\<close>: the loop over \<open>model.fields\<close>, with the \<open>errors\<close>
  object as a finite map. \<open>if (error)\<close> is the truthiness of a string or \<open>null\<close>. An
  exception of \<open>validateField\<close> leaves the loop.
\<close>

fun validateFields ::
  "js_builtins \<Rightarrow> DataRecord \<Rightarrow> ModelField list \<Rightarrow> (string \<rightharpoonup> string)
     \<Rightarrow> js_error + (string \<rightharpoonup> string)" where
  "validateFields B data [] errors = Inr errors"
| "validateFields B data (field # rest) errors =
     (case validateField B (getProp data (field_name field)) field of
        Inl e \<Rightarrow> Inl e
      | Inr error \<Rightarrow>
          validateFields B data rest
            (case error of
               None \<Rightarrow> errors
             | Some msg \<Rightarrow>
                 if msg \<noteq> [] then setStringProp errors (field_name field) msg else errors))"

definition validateModelData ::
  "js_builtins \<Rightarrow> DataRecord \<Rightarrow> ModelDefinition \<Rightarrow> js_error + (string \<rightharpoonup> string)" where
  "validateModelData B data model = validateFields B data (model_fields model) Map.empty"

subsection \<open>The checks of the field validator, one by one\<close>

text \<open>
  The specification lists the checks that follow the emptiness test in a fixed order and
  says that the first one that fails is reported. \<open>fieldChecks\<close> is that list, written
  from the specification: each check stands alone, works on the coerced value, and none
  looks at the outcome of another. A check passes (\<open>Inr None\<close>), also when it does not
  apply to the field's type, fails with its message, or ends with the exception of the
  coercion or of \<open>new RegExp\<close>. \<open>firstFailure\<close> picks the first entry that is not a pass.
  They are compared with \<open>validateField\<close> below.
\<close>

definition fieldChecks ::
  "js_builtins \<Rightarrow> jsval \<Rightarrow> ModelField \<Rightarrow> (js_error + string option) list" where
  "fieldChecks B v field =
     (let nm = labelOrName field;
          validation = validationOf field;
          t = field_type field;
          stringLike = (t = FString \<or> t = FEmail \<or> t = FUrl);
          onNumber = (\<lambda>check. case ToNumber B v of Inl e \<Rightarrow> Inl e | Inr num \<Rightarrow> check num);
          onString = (\<lambda>check. case ToString B v of Inl e \<Rightarrow> Inl e | Inr str \<Rightarrow> check str)
      in
       [if t = FNumber then
          onNumber (\<lambda>num.
            if num = NaN then Inr (Some (nm @ '' must be a number'')) else Inr None)
        else Inr None,
        if t = FNumber then
          onNumber (\<lambda>num.
            case v_min validation of
              None \<Rightarrow> Inr None
            | Some m \<Rightarrow>
                if js_less num m
                then Inr (Some (nm @ '' must be at least '' @ NumberToString B m))
                else Inr None)
        else Inr None,
        if t = FNumber then
          onNumber (\<lambda>num.
            case v_max validation of
              None \<Rightarrow> Inr None
            | Some m \<Rightarrow>
                if js_less m num
                then Inr (Some (nm @ '' must be at most '' @ NumberToString B m))
                else Inr None)
        else Inr None,
        if stringLike then
          onString (\<lambda>str.
            case v_minLength validation of
              None \<Rightarrow> Inr None
            | Some m \<Rightarrow>
                if js_less (Finite (of_nat (length str))) m
                then Inr (Some (nm @ '' must be at least '' @ NumberToString B m
                                  @ '' characters''))
                else Inr None)
        else Inr None,
        if stringLike then
          onString (\<lambda>str.
            case v_maxLength validation of
              None \<Rightarrow> Inr None
            | Some m \<Rightarrow>
                if js_less m (Finite (of_nat (length str)))
                then Inr (Some (nm @ '' must be at most '' @ NumberToString B m
                                  @ '' characters''))
                else Inr None)
        else Inr None,
        if stringLike then
          onString (\<lambda>str.
            case v_pattern validation of
              None \<Rightarrow> Inr None
            | Some p \<Rightarrow>
                if p = [] then Inr None
                else
                  (case RegExp_new B p of
                     None \<Rightarrow> Inl SyntaxError
                   | Some test \<Rightarrow>
                       if test str then Inr None
                       else Inr (Some (nm @ '' format is invalid''))))
        else Inr None,
        if t = FEmail then
          onString (\<lambda>str.
            if \<not> matches emailRegex str
            then Inr (Some (nm @ '' must be a valid email'')) else Inr None)
        else Inr None,
        if t = FUrl \<and> (case ToString B v of Inl e \<Rightarrow> True | Inr str \<Rightarrow> \<not> URL_parses B str)
          then Inr (Some (nm @ '' must be a valid URL'')) else Inr None,
        if t = FDate then
          onString (\<lambda>str.
            if \<not> Date_valid B str
            then Inr (Some (nm @ '' must be a valid date'')) else Inr None)
        else Inr None,
        if t = FBoolean \<and> v \<noteq> JBool True \<and> v \<noteq> JBool False
             \<and> v \<noteq> JStr ''true'' \<and> v \<noteq> JStr ''false''
          then Inr (Some (nm @ '' must be a boolean value'')) else Inr None])"

fun firstFailure :: "(js_error + string option) list \<Rightarrow> js_error + string option" where
  "firstFailure [] = Inr None"
| "firstFailure (c # cs) = (if c = Inr None then firstFailure cs else c)"

section \<open>The record store (lib/dataStore.ts)\<close>

text \<open>
  \<open>dataStore\<close> is a \<open>Map\<close> from model names to \<open>Map\<close>s from ids to records. The inner map
  is listed in insertion order by \<open>getModelData\<close>, so it is an association list;
  \<open>set\<close> on a key that is there keeps its place.
\<close>

type_synonym ModelStore = "(string \<times> DataRecord) list"
type_synonym DataStore = "string \<rightharpoonup> ModelStore"


definition getRecordById :: "DataStore \<Rightarrow> string \<Rightarrow> string \<Rightarrow> DataRecord option" where
  "getRecordById dataStore modelName rid =
     (case dataStore modelName of None \<Rightarrow> None | Some modelStore \<Rightarrow> map_of modelStore rid)"

text \<open>\<open>updateRecord\<close> returns the updated record (or \<open>null\<close>) and leaves the new store.\<close>

definition updateRecord ::
  "DataStore \<Rightarrow> string \<Rightarrow> string \<Rightarrow> DataRecord \<Rightarrow> DataRecord option \<times> DataStore" where
  "updateRecord dataStore modelName rid data =
     (case dataStore modelName of
        None \<Rightarrow> (None, dataStore)
      | Some modelStore \<Rightarrow>
          (case map_of modelStore rid of
             None \<Rightarrow> (None, dataStore)
           | Some existing \<Rightarrow>
               (let updated = (existing ++ data)(''id'' \<mapsto> JStr rid)
                in (Some updated, dataStore(modelName \<mapsto> AList.update rid updated modelStore)))))"

section \<open>The data routes (app/api/data)\<close>

record User =
  user_id :: string
  user_email :: string
  user_name :: string
  user_role :: UserRole

datatype body =
    ErrorBody string
  | ValidationFailed "string \<rightharpoonup> string"
  | DataBody "DataRecord list"
  | RecordBody "DataRecord option"

datatype response = Response nat body

text \<open>\<open>model.ownerField\<close> as a condition: a missing or an empty name is falsy.\<close>

definition ownerFieldOf :: "ModelDefinition \<Rightarrow> string option" where
  "ownerFieldOf model =
     (case model_ownerField model of None \<Rightarrow> None | Some f \<Rightarrow> if f = [] then None else Some f)"


text \<open>
  \<open>PUT /api/data/[modelName]/[id]\<close> with the parsed request body \<open>data\<close>, a JSON object.
  The handler returns its response and leaves the new store. An exception inside the
  \<open>try\<close> block is answered with status 500. \<open>Object.keys(errors).length > 0\<close> says that
  \<open>errors\<close> has an own property, and \<open>delete data[k]\<close> removes the own property \<open>k\<close>.
\<close>

definition PUT ::
  "js_builtins \<Rightarrow> User option \<Rightarrow> (string \<rightharpoonup> ModelDefinition) \<Rightarrow> DataStore \<Rightarrow> string \<Rightarrow> string
     \<Rightarrow> DataRecord \<Rightarrow> response \<times> DataStore" where
  "PUT B user models dataStore modelName rid data =
     (case user of
        None \<Rightarrow> (Response 401 (ErrorBody ''Not authenticated''), dataStore)
      | Some u \<Rightarrow>
          (case models modelName of
             None \<Rightarrow> (Response 404 (ErrorBody ''Model not found''), dataStore)
           | Some model \<Rightarrow>
               if \<not> canPerformAction (user_role u) Update (Some (model_permissions model))
               then (Response 403 (ErrorBody ''Permission denied''), dataStore)
               else
                 (case getRecordById dataStore modelName rid of
                    None \<Rightarrow> (Response 404 (ErrorBody ''Record not found''), dataStore)
                  | Some existingRecord \<Rightarrow>
                      if (case ownerFieldOf model of
                            None \<Rightarrow> False
                          | Some f \<Rightarrow>
                              \<not> checkOwnership (user_id u) (getProp existingRecord f) (user_role u))
                      then (Response 403 (ErrorBody ''Permission denied''), dataStore)
                      else
                        (case validateModelData B (existingRecord ++ data) model of
                           Inl e \<Rightarrow> (Response 500 (ErrorBody ''Internal server error''), dataStore)
                         | Inr errors \<Rightarrow>
                             if errors \<noteq> Map.empty
                             then (Response 400 (ValidationFailed errors), dataStore)
                             else
                               (let data' =
                                      (case ownerFieldOf model of
                                         None \<Rightarrow> data
                                       | Some f \<Rightarrow>
                                           if truthy (getProp data f) then data(f := None)
                                           else data);
                                    (record, dataStore') =
                                      updateRecord dataStore modelName rid data'
                                in (Response 200 (RecordBody record), dataStore'))))))"

section \<open>An interpretation of the builtins for concrete runs\<close>

text \<open>
  To run the validator on concrete inputs the builtins need values. This interpretation
  fixes them on the few arguments the examples below use, as ECMAScript does
  (\<open>Number('abc')\<close> is NaN, \<open>String(10)\<close> is \<open>10\<close>, \<open>new RegExp('(')\<close> throws a
  SyntaxError, \<open>/^[A-Z]+$/\<close> does not match \<open>ab\<close>), and leaves them unspecified
  everywhere else. The general theorems do not mention it: they hold for every
  interpretation.
\<close>

definition example_builtins :: js_builtins where
  "example_builtins =
     \<lparr>StringToNumber = (\<lambda>s. if s = ''abc'' then NaN else undefined s),
      NumberToString =
        (\<lambda>n. if n = Finite 3 then ''3'' else if n = Finite 10 then ''10''
             else if n = Finite 100 then ''100'' else undefined n),
      FunctionToString = undefined,
      RegExp_new =
        (\<lambda>p. if p = ''('' then None
             else if p = ''^[A-Z]+$'' then Some (\<lambda>s. if s = ''ab'' then False else undefined s)
             else undefined p),
      URL_parses = undefined,
      Date_valid = undefined\<rparr>"

section \<open>A running example\<close>

text \<open>
  The model \<open>Product\<close> of the documentation: a required name and a required price, the
  owner field \<open>ownerId\<close>, and three stored records, owned by the managers \<open>m1\<close> and
  \<open>m2\<close> and by nobody.
\<close>

definition nameField :: ModelField where
  "nameField =
     \<lparr>field_name = ''name'', field_type = FString, field_validation = None,
      field_label = None, field_required = Some True\<rparr>"

definition priceField :: ModelField where
  "priceField =
     \<lparr>field_name = ''price'', field_type = FNumber, field_validation = None,
      field_label = None, field_required = Some True\<rparr>"

definition quantityField :: ModelField where
  "quantityField =
     \<lparr>field_name = ''quantity'', field_type = FNumber,
      field_validation =
        Some \<lparr>v_required = None, v_min = Some (Finite 10), v_max = Some (Finite 100),
              v_pattern = None, v_minLength = None, v_maxLength = None\<rparr>,
      field_label = None, field_required = None\<rparr>"

definition codeField :: "string \<Rightarrow> ModelField" where
  "codeField pattern =
     \<lparr>field_name = ''code'', field_type = FString,
      field_validation =
        Some \<lparr>v_required = None, v_min = None, v_max = None,
              v_pattern = Some pattern, v_minLength = Some (Finite 3), v_maxLength = None\<rparr>,
      field_label = None, field_required = None\<rparr>"

definition emailField :: ModelField where
  "emailField =
     \<lparr>field_name = ''email'', field_type = FEmail,
      field_validation =
        Some \<lparr>v_required = Some True, v_min = None, v_max = None,
              v_pattern = None, v_minLength = None, v_maxLength = None\<rparr>,
      field_label = Some ''Email address'', field_required = None\<rparr>"

definition Product :: ModelDefinition where
  "Product =
     \<lparr>model_name = ''Product'',
      model_fields = [nameField, priceField],
      model_ownerField = Some ''ownerId'',
      model_permissions =
        \<lparr>create = Some [Admin, Manager], read = Some [Admin, Manager, Viewer],
         update = Some [Admin, Manager], delete = Some [Admin]\<rparr>,
      model_createdAt = ''2025-01-01T00:00:00.000Z'',
      model_updatedAt = ''2025-01-01T00:00:00.000Z''\<rparr>"

definition exampleModels :: "string \<rightharpoonup> ModelDefinition" where
  "exampleModels = [''Product'' \<mapsto> Product]"

definition record1 :: DataRecord where
  "record1 =
     [''id'' \<mapsto> JStr ''1'', ''name'' \<mapsto> JStr ''Laptop'', ''price'' \<mapsto> JNum (Finite 999),
      ''ownerId'' \<mapsto> JStr ''m1'']"

definition record2 :: DataRecord where
  "record2 =
     [''id'' \<mapsto> JStr ''2'', ''name'' \<mapsto> JStr ''Phone'', ''price'' \<mapsto> JNum (Finite 499),
      ''ownerId'' \<mapsto> JStr ''m2'']"

definition record3 :: DataRecord where
  "record3 = [''id'' \<mapsto> JStr ''3'', ''name'' \<mapsto> JStr ''Cable'', ''price'' \<mapsto> JNum (Finite 9)]"


definition exampleStore :: DataStore where
  "exampleStore = [''Product'' \<mapsto> [(''1'', record1), (''2'', record2), (''3'', record3)]]"







definition manager1 :: User where
  "manager1 =
     \<lparr>user_id = ''m1'', user_email = ''manager@example.com'', user_name = ''Manager User'',
      user_role = Manager\<rparr>"

section \<open>The permission rule resolver\<close>

text \<open>The default: without a rule, or without an entry for the action, only Admin may act.\<close>

lemma canPerformAction_default:
  "canPerformAction role action None = (role = Admin)"
  "ruleEntry p action = None \<Longrightarrow> canPerformAction role action (Some p) = (role = Admin)"
  by (simp_all add: canPerformAction_def)

text \<open>
  C1. The specification says: when the rule is absent, has no entry for the action, or has
  an empty role list for it, \<open>canPerformAction\<close> is true exactly for Admin. The code does
  this for an absent rule and for a missing entry (above), but an entry that is the empty
  list denies every role, Admin included: the empty array is truthy, so the Admin-only
  default is skipped and \<open>[].includes(userRole)\<close> is false.
\<close>

theorem canPerformAction_empty_list_denies_everyone:
  "ruleEntry p action = Some [] \<Longrightarrow> canPerformAction role action (Some p) = False"
  by (simp add: canPerformAction_def)

theorem canPerformAction_empty_list_denies_Admin:
  "canPerformAction Admin Create
     (Some \<lparr>create = Some [], read = None, update = None, delete = None\<rparr>) = False"
  using canPerformAction_empty_list_denies_everyone
    [of "\<lparr>create = Some [], read = None, update = None, delete = None\<rparr>" Create Admin]
  by simp

text \<open>
  C4. With an explicit, non-empty role list for the action, \<open>canPerformAction\<close> is
  membership in that list and nothing else: a list without Admin denies Admin.
\<close>

theorem canPerformAction_explicit_list:
  assumes "ruleEntry p action = Some roles" and "roles \<noteq> []"
  shows "(canPerformAction role action (Some p) \<longleftrightarrow> role \<in> set roles)
       \<and> (Admin \<notin> set roles \<longrightarrow> canPerformAction Admin action (Some p) = False)"
  using assms by (simp add: canPerformAction_def)

theorem canPerformAction_explicit_list_witness:
  "canPerformAction Admin Create
     (Some \<lparr>create = Some [Manager], read = None, update = None, delete = None\<rparr>) = False
   \<and> canPerformAction Manager Create
     (Some \<lparr>create = Some [Manager], read = None, update = None, delete = None\<rparr>) = True"
  using canPerformAction_explicit_list
    [of "\<lparr>create = Some [Manager], read = None, update = None, delete = None\<rparr>" Create
        "[Manager]" Manager]
  by simp

section \<open>The ownership resolver\<close>

text \<open>An owner id that is a non-empty string is compared with the requester's id, exactly
  and case-sensitively.\<close>

lemma checkOwnership_string_owner:
  "role \<noteq> Admin \<Longrightarrow> ownerId \<noteq> [] \<Longrightarrow>
     checkOwnership userId (JStr ownerId) role = (userId = ownerId)"
  by (auto simp: checkOwnership_def)

text \<open>
  C2. The specification says: for a requester who is not Admin, an owner id that is the
  empty string counts as present, so that \<open>checkOwnership(userId, "", role)\<close> holds only
  for the empty \<open>userId\<close>. In the code \<open>!ownerId\<close> is true for the empty string, which is
  therefore treated like a missing owner: the check succeeds for every user and every
  role.
\<close>

theorem checkOwnership_empty_owner_is_public:
  "checkOwnership userId (JStr []) role = True"
  by (simp add: checkOwnership_def)

text \<open>
  C5. Admin passes the ownership check for every user id and every owner value, and a
  record without an owner value passes it for every user id and every role.
\<close>

theorem checkOwnership_Admin_and_absent:
  "checkOwnership userId ownerId Admin = True \<and> checkOwnership userId JUndefined role = True"
  by (simp add: checkOwnership_def)

section \<open>The read-collection flow\<close>





section \<open>Updates and the owner field\<close>

lemma updateRecord_found:
  assumes "getRecordById ds mn rid = Some existing"
  shows "fst (updateRecord ds mn rid d) = Some ((existing ++ d)(''id'' \<mapsto> JStr rid))"
    and "getRecordById (snd (updateRecord ds mn rid d)) mn rid =
           Some ((existing ++ d)(''id'' \<mapsto> JStr rid))"
  using assms
  by (auto simp: updateRecord_def getRecordById_def Let_def update_conv' split: option.splits)

text \<open>A request that is answered with status 200 has reached \<open>updateRecord\<close>.\<close>

lemma PUT_success:
  assumes "fst (PUT B (Some u) models ds mn rid data) = Response 200 body"
    and "models mn = Some model"
  shows "\<exists>existing. getRecordById ds mn rid = Some existing \<and>
           snd (PUT B (Some u) models ds mn rid data) =
             snd (updateRecord ds mn rid
               (case ownerFieldOf model of
                  None \<Rightarrow> data
                | Some f \<Rightarrow> if truthy (getProp data f) then data(f := None) else data))"
  using assms
  by (auto simp: PUT_def Let_def split: option.splits if_splits sum.splits prod.splits)

text \<open>
  What the guard \<open>model.ownerField && data[model.ownerField]\<close> does achieve: a payload that
  does not mention the owner field, or gives it a truthy value, leaves the stored owner
  value as it was, whatever the outcome of the request.
\<close>

lemma PUT_owner_kept:
  assumes "models mn = Some model" and "ownerFieldOf model = Some f" and "f \<noteq> ''id''"
    and "data f = None \<or> truthy (getProp data f)"
    and "getRecordById ds mn rid = Some existing"
  shows "map_option (\<lambda>r. getProp r f)
           (getRecordById (snd (PUT B (Some u) models ds mn rid data)) mn rid)
         = Some (getProp existing f)"
proof (cases "\<exists>body. fst (PUT B (Some u) models ds mn rid data) = Response 200 body")
  case True
  then obtain body where b: "fst (PUT B (Some u) models ds mn rid data) = Response 200 body"
    by blast
  have d: "(if truthy (getProp data f) then data(f := None) else data) f = None"
    using assms(4) by auto
  from PUT_success [OF b assms(1)] assms(2)
  have s: "snd (PUT B (Some u) models ds mn rid data) =
        snd (updateRecord ds mn rid (if truthy (getProp data f) then data(f := None) else data))"
    by simp
  show ?thesis
    using assms(3) d
    by (simp add: s updateRecord_found(2) [OF assms(5)] getProp_def map_add_def)
next
  case False
  then have "snd (PUT B (Some u) models ds mn rid data) = ds"
    using assms(1,5)
    by (auto simp: PUT_def Let_def split: option.splits if_splits sum.splits prod.splits)
  then show ?thesis by (simp add: assms(5))
qed

text \<open>
  C3. The specification says: no update payload changes the stored owner value. The
  handler removes the owner field from the payload only when the payload's value for it
  is truthy (\<open>// Don't allow changing owner\<close>). A payload that sets the owner field to a
  falsy value (the empty string, \<open>null\<close>, \<open>0\<close>, \<open>false\<close>) keeps it, and a successful
  update stores that value as the record's owner value.
\<close>

theorem PUT_falsy_owner_overwrites:
  assumes "models mn = Some model" and "ownerFieldOf model = Some f" and "f \<noteq> ''id''"
    and "data f = Some v" and "\<not> truthy v"
    and "fst (PUT B (Some u) models ds mn rid data) = Response 200 body"
  shows "map_option (\<lambda>r. getProp r f)
           (getRecordById (snd (PUT B (Some u) models ds mn rid data)) mn rid) = Some v"
proof -
  from PUT_success [OF assms(6) assms(1)] obtain existing where
    e: "getRecordById ds mn rid = Some existing" and
    s: "snd (PUT B (Some u) models ds mn rid data) = snd (updateRecord ds mn rid data)"
    using assms(2,4,5) by (auto simp: getProp_def)
  show ?thesis
    using assms(3,4) by (simp add: s updateRecord_found(2) [OF e] getProp_def)
qed

text \<open>
  The manager \<open>m1\<close> updates the record they own with the payload \<open>{"ownerId": ""}\<close>: the
  stored owner value was \<open>m1\<close> and is the empty string afterwards.
\<close>

theorem PUT_falsy_owner_witness:
  "map_option (\<lambda>r. getProp r ''ownerId'') (getRecordById exampleStore ''Product'' ''1'')
     = Some (JStr ''m1'')
   \<and> map_option (\<lambda>r. getProp r ''ownerId'')
       (getRecordById
          (snd (PUT example_builtins (Some manager1) exampleModels exampleStore ''Product'' ''1''
                  [''ownerId'' \<mapsto> JStr []]))
          ''Product'' ''1'')
     = Some (JStr [])"
proof -
  have r: "getRecordById exampleStore ''Product'' ''1'' = Some record1"
    by (simp add: getRecordById_def exampleStore_def)
  have o: "getProp record1 ''ownerId'' = JStr ''m1''"
    by (simp add: getProp_def record1_def)
  have m: "exampleModels ''Product'' = Some Product"
    by (simp add: exampleModels_def)
  have f: "ownerFieldOf Product = Some ''ownerId''"
    by (simp add: ownerFieldOf_def Product_def)
  have p: "canPerformAction (user_role manager1) Update (Some (model_permissions Product))"
    by (simp add: canPerformAction_def manager1_def Product_def)
  have c: "checkOwnership (user_id manager1) (JStr ''m1'') (user_role manager1)"
    by (simp add: checkOwnership_def manager1_def)
  have n: "validateField example_builtins (JStr ''Laptop'') nameField = Inr None"
    by (simp add: validateField_def nameField_def isRequired_def isEmpty_def numberBlock_def
        stringBlock_def emailBlock_def urlBlock_def dateBlock_def booleanBlock_def
        validationOf_def noValidation_def belowBound_def aboveBound_def fallThrough_def)
  have q: "validateField example_builtins (JNum (Finite 999)) priceField = Inr None"
    by (simp add: validateField_def priceField_def isRequired_def isEmpty_def numberBlock_def
        stringBlock_def emailBlock_def urlBlock_def dateBlock_def booleanBlock_def
        validationOf_def noValidation_def belowBound_def aboveBound_def isNaN_def
        fallThrough_def)
  have fn: "field_name nameField = ''name''" "field_name priceField = ''price''"
    by (simp_all add: nameField_def priceField_def)
  have g: "getProp (record1(''ownerId'' \<mapsto> JStr [])) ''name'' = JStr ''Laptop''"
    "getProp (record1(''ownerId'' \<mapsto> JStr [])) ''price'' = JNum (Finite 999)"
    by (simp_all add: getProp_def record1_def)
  have v: "validateModelData example_builtins (record1(''ownerId'' \<mapsto> JStr [])) Product
             = Inr Map.empty"
    by (simp add: validateModelData_def Product_def fn g n q)
  have t: "\<not> truthy (getProp [''ownerId'' \<mapsto> JStr []] ''ownerId'')"
    by (simp add: getProp_def)
  have "fst (PUT example_builtins (Some manager1) exampleModels exampleStore ''Product'' ''1''
               [''ownerId'' \<mapsto> JStr []])
          = Response 200 (RecordBody
              (fst (updateRecord exampleStore ''Product'' ''1'' [''ownerId'' \<mapsto> JStr []])))"
    using t by (simp add: PUT_def m p r f o c v Let_def split: prod.splits)
  from PUT_falsy_owner_overwrites [of exampleModels "''Product''" Product "''ownerId''"
      "[''ownerId'' \<mapsto> JStr []]" "JStr []" example_builtins manager1 exampleStore "''1''",
      OF m f _ _ _ this]
  show ?thesis
    by (simp add: r o)
qed

section \<open>Coercions that throw\<close>

lemma fallThrough_simps [simp]:
  "fallThrough (Inr None) rest = rest"
  "fallThrough (Inr (Some msg)) rest = Inr (Some msg)"
  "fallThrough (Inl e) rest = Inl e"
  "fallThrough block (Inr None) = block"
  by (auto simp: fallThrough_def split: sum.splits option.splits)

text \<open>\<open>Number(value)\<close> throws exactly when \<open>String(value)\<close> does.\<close>

lemma ToNumber_Inl_iff: "ToNumber B v = Inl e \<longleftrightarrow> ToString B v = Inl e"
  by (cases v) (auto split: sum.splits)

lemma ToNumber_returns: "ToString B v = Inr str \<Longrightarrow> \<exists>num. ToNumber B v = Inr num"
  by (cases v) (auto split: sum.splits)

text \<open>
  On a value that is not empty and whose coercion throws (a JSON object with an own
  \<open>toString\<close> key, or an array that contains one), \<open>validateField\<close> throws for every
  field type but boolean, the one type whose check does not coerce the value.
\<close>

lemma validateField_coercion_throws:
  assumes "\<not> isEmpty v" and "ToString B v = Inl e"
  shows "validateField B v field =
           (if field_type field = FBoolean
            then Inr (Some (labelOrName field @ '' must be a boolean value'')) else Inl e)"
proof -
  have n: "ToNumber B v = Inl e"
    using assms(2) by (simp add: ToNumber_Inl_iff)
  have b: "(case v of JBool b \<Rightarrow> False | _ \<Rightarrow> True) \<and> v \<noteq> JStr ''true'' \<and> v \<noteq> JStr ''false''"
    using assms(2) by (cases v) auto
  show ?thesis
    using assms(1) b
    by (cases "field_type field")
      (simp_all add: validateField_def numberBlock_def stringBlock_def emailBlock_def
        urlBlock_def dateBlock_def booleanBlock_def n assms(2))
qed

section \<open>The field validator on numbers\<close>

lemma js_less_irrefl: "\<not> js_less n n"
  by (cases n) simp_all

lemma js_less_NaN: "\<not> js_less NaN m" "\<not> js_less m NaN"
  by (cases m; simp)+

lemma validateField_number_unfold:
  assumes "field_type field = FNumber" and "\<not> isEmpty v"
  shows "validateField B v field = numberBlock B v field"
  using assms
  by (simp add: validateField_def stringBlock_def emailBlock_def urlBlock_def dateBlock_def
      booleanBlock_def)

text \<open>
  C7, as the code has it. For a field of type number and a value that is not empty and
  that \<open>Number\<close> coerces to \<open>num\<close>, \<open>validateField\<close> answers \<open>must be a number\<close> exactly
  when \<open>num\<close> is NaN: the test is \<open>isNaN\<close>, so an infinite value counts as a number and
  goes on to the bounds. A value below \<open>min\<close> gets the \<open>must be at least\<close> message, a
  value above \<open>max\<close> and not below \<open>min\<close> the \<open>must be at most\<close> message, and every
  other value passes; in particular a value equal to \<open>min\<close> or to \<open>max\<close> passes, so the
  bounds are inclusive.
\<close>

theorem validateField_number:
  assumes "field_type field = FNumber" and "\<not> isEmpty v" and "ToNumber B v = Inr num"
  shows "((validateField B v field = Inr (Some (labelOrName field @ '' must be a number'')))
            \<longleftrightarrow> num = NaN)
       \<and> (\<forall>m. v_min (validationOf field) = Some m \<and> js_less num m \<longrightarrow>
            validateField B v field =
              Inr (Some (labelOrName field @ '' must be at least '' @ NumberToString B m)))
       \<and> (\<forall>m. v_max (validationOf field) = Some m \<and> js_less m num
               \<and> (\<forall>l. v_min (validationOf field) = Some l \<longrightarrow> \<not> js_less num l) \<longrightarrow>
            validateField B v field =
              Inr (Some (labelOrName field @ '' must be at most '' @ NumberToString B m)))
       \<and> (num \<noteq> NaN
            \<and> (\<forall>l. v_min (validationOf field) = Some l \<longrightarrow> \<not> js_less num l)
            \<and> (\<forall>m. v_max (validationOf field) = Some m \<longrightarrow> \<not> js_less m num) \<longrightarrow>
            validateField B v field = Inr None)
       \<and> (num \<noteq> NaN \<and> v_min (validationOf field) = Some num
            \<and> (\<forall>m. v_max (validationOf field) = Some m \<longrightarrow> \<not> js_less m num) \<longrightarrow>
            validateField B v field = Inr None)
       \<and> (num \<noteq> NaN \<and> v_max (validationOf field) = Some num
            \<and> (\<forall>l. v_min (validationOf field) = Some l \<longrightarrow> \<not> js_less num l) \<longrightarrow>
            validateField B v field = Inr None)"
  by (auto simp: validateField_number_unfold [OF assms(1,2)] numberBlock_def assms(1,3)
      isNaN_def belowBound_def aboveBound_def Let_def js_less_irrefl js_less_NaN
      split: option.splits)

theorem validateField_number_witness:
  "validateField example_builtins (JNum (Finite 5)) quantityField
     = Inr (Some ''quantity must be at least 10'')
   \<and> validateField example_builtins (JNum (Finite 10)) quantityField = Inr None
   \<and> validateField example_builtins (JNum (Finite 100)) quantityField = Inr None
   \<and> validateField example_builtins (JNum (Finite 101)) quantityField
     = Inr (Some ''quantity must be at most 100'')
   \<and> validateField example_builtins (JStr ''abc'') quantityField
     = Inr (Some ''quantity must be a number'')"
proof -
  have t: "field_type quantityField = FNumber"
    and l: "labelOrName quantityField = ''quantity''"
    and b: "v_min (validationOf quantityField) = Some (Finite 10)"
      "v_max (validationOf quantityField) = Some (Finite 100)"
    by (simp_all add: quantityField_def labelOrName_def validationOf_def)
  have s: "NumberToString example_builtins (Finite 10) = ''10''"
    "NumberToString example_builtins (Finite 100) = ''100''"
    by (simp_all add: example_builtins_def)
  have c: "ToNumber example_builtins (JNum n) = Inr n"
    "ToNumber example_builtins (JStr ''abc'') = Inr NaN" for n
    by (simp_all add: example_builtins_def)
  have e: "\<not> isEmpty (JNum n)" "\<not> isEmpty (JStr ''abc'')" for n
    by (simp_all add: isEmpty_def)
  show ?thesis
    using validateField_number [OF t e(1) c(1), of "Finite 5"]
      validateField_number [OF t e(1) c(1), of "Finite 10"]
      validateField_number [OF t e(1) c(1), of "Finite 100"]
      validateField_number [OF t e(1) c(1), of "Finite 101"]
      validateField_number [OF t e(2) c(2)]
    by (simp add: l b s)
qed

text \<open>
  The specification as written asks for \<open>must be a number\<close> whenever the value does not
  coerce to a finite number. The value \<open>Infinity\<close> (the JSON text \<open>1e999\<close>) on the required
  number field \<open>price\<close> is not empty, does not coerce to a finite number, and is accepted.
\<close>

theorem validateField_Infinity_counterexample:
  "field_type priceField = FNumber \<and> \<not> isEmpty (JNum PosInfinity)
   \<and> ToNumber example_builtins (JNum PosInfinity) = Inr PosInfinity
   \<and> validateField example_builtins (JNum PosInfinity) priceField = Inr None"
  by (simp add: validateField_def priceField_def isRequired_def isEmpty_def numberBlock_def
        stringBlock_def emailBlock_def urlBlock_def dateBlock_def booleanBlock_def
        validationOf_def noValidation_def belowBound_def aboveBound_def isNaN_def)

section \<open>Exceptions of the field validator\<close>

text \<open>
  C9. The specification says: \<open>validateField\<close> returns a message or \<open>null\<close> for every
  value and every field definition and never throws. \<open>new RegExp(validation.pattern)\<close> is
  called outside any \<open>try\<close> block (unlike \<open>new URL\<close> a few lines below), so on a
  string-like field whose pattern is not a well-formed regular expression, a value that is
  not empty, that \<open>String\<close> coerces and that passes the length checks makes
  \<open>validateField\<close> throw.
\<close>

theorem validateField_invalid_pattern_throws:
  assumes "field_type field = FString \<or> field_type field = FEmail \<or> field_type field = FUrl"
    and "\<not> isEmpty v"
    and "ToString B v = Inr str"
    and "belowBound (Finite (of_nat (length str))) (v_minLength (validationOf field)) = None"
    and "aboveBound (Finite (of_nat (length str))) (v_maxLength (validationOf field)) = None"
    and "v_pattern (validationOf field) = Some p" and "p \<noteq> []" and "RegExp_new B p = None"
  shows "validateField B v field = Inl SyntaxError"
proof -
  have "numberBlock B v field = Inr None"
    using assms(1) by (auto simp: numberBlock_def)
  moreover have "stringBlock B v field = Inl SyntaxError"
    using assms by (auto simp: stringBlock_def Let_def)
  ultimately show ?thesis
    using assms(2) by (simp add: validateField_def)
qed

theorem validateField_invalid_pattern_witness:
  "validateField example_builtins (JStr ''abc'') (codeField ''('') = Inl SyntaxError"
  using validateField_invalid_pattern_throws
    [of "codeField ''(''" "JStr ''abc''" example_builtins "''abc''" "''(''"]
  by (simp add: codeField_def isEmpty_def validationOf_def belowBound_def aboveBound_def
      example_builtins_def)

section \<open>Required fields and the single reported error\<close>

lemma validateField_empty:
  "isEmpty v \<Longrightarrow>
     validateField B v field =
       (if isRequired field then Inr (Some (labelOrName field @ '' is required'')) else Inr None)"
  by (simp add: validateField_def)

lemma isRequired_iff:
  "isRequired field \<longleftrightarrow>
     ((\<exists>validation. field_validation field = Some validation \<and> v_required validation = Some True)
      \<or> field_required field = Some True)"
  by (auto simp: isRequired_def validationOf_def noValidation_def split: option.splits)

text \<open>
  After the emptiness test, \<open>validateField\<close> reports the first check of the list that does
  not pass. One case per field type: the checks of the other types reduce to a pass.
\<close>

lemma validateField_firstFailure:
  assumes "\<not> isEmpty v"
  shows "validateField B v field = firstFailure (fieldChecks B v field)"
proof (cases "field_type field")
  case FString
  with assms show ?thesis
    by (cases "ToString B v")
      (simp_all add: validateField_def fieldChecks_def numberBlock_def stringBlock_def
        emailBlock_def urlBlock_def dateBlock_def booleanBlock_def belowBound_def
        aboveBound_def isNaN_def js_less_NaN Let_def
        split: option.splits)
next
  case FNumber
  with assms show ?thesis
    by (cases "ToNumber B v")
      (simp_all add: validateField_def fieldChecks_def numberBlock_def stringBlock_def
        emailBlock_def urlBlock_def dateBlock_def booleanBlock_def belowBound_def
        aboveBound_def isNaN_def js_less_NaN Let_def
        split: option.splits)
next
  case FBoolean
  with assms show ?thesis
    by (cases "v")
      (simp_all add: validateField_def fieldChecks_def numberBlock_def stringBlock_def
        emailBlock_def urlBlock_def dateBlock_def booleanBlock_def belowBound_def
        aboveBound_def isNaN_def js_less_NaN Let_def
        split: option.splits)
next
  case FDate
  with assms show ?thesis
    by (cases "ToString B v")
      (simp_all add: validateField_def fieldChecks_def numberBlock_def stringBlock_def
        emailBlock_def urlBlock_def dateBlock_def booleanBlock_def belowBound_def
        aboveBound_def isNaN_def js_less_NaN Let_def
        split: option.splits)
next
  case FEmail
  with assms show ?thesis
    by (cases "ToString B v")
      (simp_all add: validateField_def fieldChecks_def numberBlock_def stringBlock_def
        emailBlock_def urlBlock_def dateBlock_def booleanBlock_def belowBound_def
        aboveBound_def isNaN_def js_less_NaN Let_def
        split: option.splits)
next
  case FUrl
  with assms show ?thesis
    by (cases "ToString B v")
      (simp_all add: validateField_def fieldChecks_def numberBlock_def stringBlock_def
        emailBlock_def urlBlock_def dateBlock_def booleanBlock_def belowBound_def
        aboveBound_def isNaN_def js_less_NaN Let_def
        split: option.splits)
qed

text \<open>Every message in the \<open>errors\<close> object is the one \<open>validateField\<close> returned for a
  field of that name.\<close>

lemma validateFields_origin:
  "validateFields B data fs errs0 = Inr errs \<Longrightarrow> errs k = Some msg
     \<Longrightarrow> errs0 k = Some msg
         \<or> (\<exists>f\<in>set fs. field_name f = k \<and> validateField B (getProp data k) f = Inr (Some msg))"
proof (induction fs arbitrary: errs0)
  case Nil
  then show ?case by simp
next
  case (Cons f fs)
  then show ?case
    by (fastforce simp: setStringProp_def split: sum.splits option.splits if_splits)
qed

text \<open>
  C8. \<open>required\<close> is the disjunction of \<open>field.validation.required\<close> and
  \<open>field.required\<close>. For a value that is \<open>null\<close>, \<open>undefined\<close> or the empty string, the
  result is \<open><label or name> is required\<close> when the field is required and \<open>null\<close>
  otherwise, whatever the type and the other constraints say. For every other value the
  outcome is that of the first check that does not pass, in the order of the
  specification: its message, or its exception, in which case nothing is reported. A
  validation pass over a model reports at most one message per field name (the \<open>errors\<close>
  object maps a name to one message), and that message is one returned by
  \<open>validateField\<close> for a field of that name.
\<close>

theorem validateField_required_and_single_error:
  "(isRequired field \<longleftrightarrow>
      ((\<exists>validation. field_validation field = Some validation
          \<and> v_required validation = Some True)
       \<or> field_required field = Some True))
   \<and> (v = JNull \<or> v = JUndefined \<or> v = JStr [] \<longrightarrow>
        validateField B v field =
          (if isRequired field then Inr (Some (labelOrName field @ '' is required''))
           else Inr None))
   \<and> (\<not> (v = JNull \<or> v = JUndefined \<or> v = JStr []) \<longrightarrow>
        validateField B v field = firstFailure (fieldChecks B v field))
   \<and> (\<forall>errs. validateModelData B data model = Inr errs \<longrightarrow>
        (\<forall>k msg. errs k = Some msg \<longrightarrow>
             (\<exists>f\<in>set (model_fields model).
                field_name f = k \<and> validateField B (getProp data k) f = Inr (Some msg))))"
proof (intro conjI allI impI)
  show "isRequired field \<longleftrightarrow>
      ((\<exists>validation. field_validation field = Some validation
          \<and> v_required validation = Some True)
       \<or> field_required field = Some True)"
    by (rule isRequired_iff)
next
  assume "v = JNull \<or> v = JUndefined \<or> v = JStr []"
  then show "validateField B v field =
          (if isRequired field then Inr (Some (labelOrName field @ '' is required''))
           else Inr None)"
    by (intro validateField_empty) (simp add: isEmpty_def)
next
  assume "\<not> (v = JNull \<or> v = JUndefined \<or> v = JStr [])"
  then show "validateField B v field = firstFailure (fieldChecks B v field)"
    by (intro validateField_firstFailure) (simp add: isEmpty_def)
next
  fix errs k msg
  assume "validateModelData B data model = Inr errs" and "errs k = Some msg"
  then show "\<exists>f\<in>set (model_fields model).
                field_name f = k \<and> validateField B (getProp data k) f = Inr (Some msg)"
    using validateFields_origin [of B data "model_fields model" Map.empty errs k msg]
    by (simp add: validateModelData_def)
qed

theorem validateField_required_witness:
  "validateField example_builtins JNull nameField = Inr (Some ''name is required'')
   \<and> validateField example_builtins (JStr []) emailField
     = Inr (Some ''Email address is required'')
   \<and> validateField example_builtins JUndefined (codeField ''('') = Inr None
   \<and> validateField example_builtins (JStr ''ab'') (codeField ''^[A-Z]+$'')
     = Inr (Some ''code must be at least 3 characters'')
   \<and> validateField example_builtins (JObj [''toString'' \<mapsto> JNum (Finite 1)]) nameField
     = Inl TypeError
   \<and> validateModelData example_builtins [''price'' \<mapsto> JStr ''abc''] Product
     = Inr [''name'' \<mapsto> ''name is required'', ''price'' \<mapsto> ''price must be a number'']"
proof -
  note t = validateField_required_and_single_error
  note e = t [THEN conjunct2, THEN conjunct1, rule_format]
  note n = t [THEN conjunct2, THEN conjunct2, THEN conjunct1, rule_format]
  have r: "isRequired nameField" "isRequired emailField" "\<not> isRequired (codeField p)"
    "isRequired priceField" for p
    by (simp_all add: t [THEN conjunct1] nameField_def emailField_def codeField_def
        priceField_def)
  have l: "labelOrName nameField = ''name''" "labelOrName emailField = ''Email address''"
    "labelOrName (codeField p) = ''code''" "labelOrName priceField = ''price''" for p
    by (simp_all add: labelOrName_def nameField_def emailField_def codeField_def priceField_def)
  have 1: "validateField example_builtins JNull nameField = Inr (Some ''name is required'')"
    by (simp add: e r l)
  have 2: "validateField example_builtins (JStr []) emailField
             = Inr (Some ''Email address is required'')"
    by (simp add: e r l)
  have 3: "validateField example_builtins JUndefined (codeField ''('') = Inr None"
    by (simp add: e r l)
  have c: "fieldChecks example_builtins (JStr ''ab'') (codeField ''^[A-Z]+$'') =
             [Inr None, Inr None, Inr None, Inr (Some ''code must be at least 3 characters''),
              Inr None, Inr (Some ''code format is invalid''), Inr None, Inr None, Inr None,
              Inr None]"
    by (simp add: fieldChecks_def l Let_def)
      (simp add: validationOf_def codeField_def example_builtins_def)
  have 4: "validateField example_builtins (JStr ''ab'') (codeField ''^[A-Z]+$'')
             = Inr (Some ''code must be at least 3 characters'')"
    by (simp add: n c)
  have 5: "validateField example_builtins JUndefined nameField = Inr (Some ''name is required'')"
    by (simp add: e r l)
  have d: "firstFailure (fieldChecks example_builtins (JStr ''abc'') priceField) =
             Inr (Some ''price must be a number'')"
    by (simp add: fieldChecks_def l Let_def)
      (simp add: validationOf_def priceField_def example_builtins_def noValidation_def)
  have 6: "validateField example_builtins (JStr ''abc'') priceField
             = Inr (Some ''price must be a number'')"
    by (simp add: n d)
  have o: "firstFailure
             (fieldChecks example_builtins (JObj [''toString'' \<mapsto> JNum (Finite 1)]) nameField)
           = Inl TypeError"
    by (simp add: fieldChecks_def l Let_def) (simp add: nameField_def)
  have 8: "validateField example_builtins (JObj [''toString'' \<mapsto> JNum (Finite 1)]) nameField
             = Inl TypeError"
    by (simp add: n o)
  have g: "getProp [''price'' \<mapsto> JStr ''abc''] ''name'' = JUndefined"
    "getProp [''price'' \<mapsto> JStr ''abc''] ''price'' = JStr ''abc''"
    by (simp_all add: getProp_def inherited_def objectPrototypeMethods_def)
  have fn: "field_name nameField = ''name''" "field_name priceField = ''price''"
    by (simp_all add: nameField_def priceField_def)
  have 7: "validateModelData example_builtins [''price'' \<mapsto> JStr ''abc''] Product
     = Inr [''name'' \<mapsto> ''name is required'', ''price'' \<mapsto> ''price must be a number'']"
    by (simp add: validateModelData_def Product_def fn g 5 6 setStringProp_def)
  from 1 2 3 4 7 8 show ?thesis by simp
qed

section \<open>Validation of an update\<close>












end
